theory Spec2Isabelle
  imports Complex_Main "HOL-Library.AList"
begin

section \<open>Python values and exceptions\<close>

text \<open>
  The notebook \<^verbatim>\<open>workshop_aluminium_alloys.ipynb\<close> is Python on top of pandas and
  scikit-learn. An exception is a value of \<open>error\<close>; a computation that may raise has
  the type \<open>error + 'a\<close>, with \<open>Inl\<close> for the exception. The constructors are named
  after the Python exception classes that the code can raise.
\<close>

datatype error = KeyError | ValueError | IndexError | TypeError

definition bind_err :: "error + 'a \<Rightarrow> ('a \<Rightarrow> error + 'b) \<Rightarrow> error + 'b" where
  "bind_err m f = (case m of Inl e \<Rightarrow> Inl e | Inr x \<Rightarrow> f x)"

fun traverse :: "('a \<Rightarrow> error + 'b) \<Rightarrow> 'a list \<Rightarrow> error + 'b list" where
  "traverse f [] = Inr []"
| "traverse f (x # xs) =
     bind_err (f x) (\<lambda>y. bind_err (traverse f xs) (\<lambda>ys. Inr (y # ys)))"

section \<open>The temper columns\<close>

text \<open>
  A Python \<open>str\<close> is a \<open>string\<close>; the model covers strings of 8-bit characters, among
  which the decimal digits are exactly \<open>0\<close> to \<open>9\<close>. A string of one character, as
  \<^verbatim>\<open>x[0]\<close> returns it, is represented by that character.

  \<^verbatim>\<open>x[i]\<close> for \<open>i \<ge> 0\<close> raises IndexError out of range.
\<close>

definition str_index :: "string \<Rightarrow> nat \<Rightarrow> error + char" where
  "str_index x i = (if i < length x then Inr (x ! i) else Inl IndexError)"

text \<open>\<^verbatim>\<open>int(c)\<close> on a string of one character: its value if it is a digit, else ValueError.\<close>

definition py_int :: "char \<Rightarrow> error + int" where
  "py_int c =
     (let n = (of_char c :: nat)
      in if 48 \<le> n \<and> n \<le> 57 then Inr (int n - 48) else Inl ValueError)"

text \<open>\<^verbatim>\<open>lambda x: x[:2] if x != "O" else x\<close>\<close>

definition temper_truncated :: "string \<Rightarrow> string" where
  "temper_truncated x = (if x \<noteq> ''O'' then take 2 x else x)"

text \<open>\<^verbatim>\<open>lambda x: x[0]\<close>\<close>

definition temper_c0 :: "string \<Rightarrow> error + char" where
  "temper_c0 x = str_index x 0"

text \<open>\<^verbatim>\<open>lambda x: int(x[1]) if len(x)>1 else 1\<close>\<close>

definition temper_c1 :: "string \<Rightarrow> error + int" where
  "temper_c1 x = (if length x > 1 then bind_err (str_index x 1) py_int else Inr 1)"

section \<open>Data frames\<close>

text \<open>
  A cell holds a number or a string; a number is the value of a float, a rational, and
  missing values are not modelled. A \<open>frame\<close> is a pandas DataFrame: its index, one
  label per row in row order, and its columns in column order, each a pandas Series
  with one value per row. Index labels are integers (other label types are not
  modelled). \<open>default_index n\<close> is the index \<open>0 .. n - 1\<close> that \<^verbatim>\<open>read_excel\<close>
  produces. Column names are taken to be distinct, as in a table read from a
  spreadsheet; a lookup returns the first column of that name.
\<close>

datatype cell = Num rat | Str string

record frame =
  index :: "int list"
  cols :: "(string \<times> cell list) list"

definition nrows :: "frame \<Rightarrow> nat" where
  "nrows df = length (index df)"

definition default_index :: "nat \<Rightarrow> int list" where
  "default_index n = map int [0..<n]"

definition well_formed :: "frame \<Rightarrow> bool" where
  "well_formed df = list_all (\<lambda>(c, s). length s = nrows df) (cols df)"

text \<open>\<^verbatim>\<open>df[name]\<close> and \<^verbatim>\<open>df.loc[:, name]\<close> for one column name.\<close>

definition loc_col :: "frame \<Rightarrow> string \<Rightarrow> error + cell list" where
  "loc_col df name = (case map_of (cols df) name of None \<Rightarrow> Inl KeyError | Some s \<Rightarrow> Inr s)"

text \<open>
  \<^verbatim>\<open>df.loc[:, names]\<close> for a list of names: a new frame with the same index, KeyError
  if a name is absent.
\<close>

definition loc_cols :: "frame \<Rightarrow> string list \<Rightarrow> error + frame" where
  "loc_cols df names =
     bind_err (traverse (\<lambda>c. bind_err (loc_col df c) (\<lambda>s. Inr (c, s))) names)
       (\<lambda>cs. Inr \<lparr>index = index df, cols = cs\<rparr>)"

text \<open>
  \<^verbatim>\<open>.loc\<close> with a list of row labels looks the labels up in the index. The rows
  selected are, for each requested label in the order of the request, the rows that
  carry this label, in row order; a label that no row carries raises KeyError. The
  notebook passes the row positions that \<^verbatim>\<open>split\<close> yields as the labels.
\<close>

definition label_positions :: "int list \<Rightarrow> int \<Rightarrow> nat list" where
  "label_positions ix label = filter (\<lambda>p. ix ! p = label) [0..<length ix]"

definition loc_labels :: "int list \<Rightarrow> nat list \<Rightarrow> error + nat list" where
  "loc_labels ix labels =
     bind_err (traverse (\<lambda>i. let ps = label_positions ix (int i)
                            in if ps = [] then Inl KeyError else Inr ps) labels)
       (\<lambda>pss. Inr (concat pss))"

text \<open>
  The values of a Series at row positions. In a well-formed frame every column has a
  value at every row position, and the check cannot fail.
\<close>

definition take_rows :: "nat list \<Rightarrow> 'a list \<Rightarrow> error + 'a list" where
  "take_rows ps s =
     (if list_all (\<lambda>p. p < length s) ps then Inr (map (\<lambda>p. s ! p) ps) else Inl KeyError)"

text \<open>\<^verbatim>\<open>df.loc[labels, name]\<close>\<close>

definition loc_rows_col :: "frame \<Rightarrow> nat list \<Rightarrow> string \<Rightarrow> error + cell list" where
  "loc_rows_col df labels name =
     bind_err (loc_col df name) (\<lambda>s.
     bind_err (loc_labels (index df) labels) (\<lambda>ps.
     take_rows ps s))"

text \<open>
  \<^verbatim>\<open>df.loc[labels, :]\<close> and \<^verbatim>\<open>df.loc[labels]\<close>: a new frame of the selected rows, each
  with its label.
\<close>

definition loc_rows :: "frame \<Rightarrow> nat list \<Rightarrow> error + frame" where
  "loc_rows df labels =
     bind_err (loc_labels (index df) labels) (\<lambda>ps.
     bind_err (traverse (\<lambda>(c, s). bind_err (take_rows ps s) (\<lambda>s'. Inr (c, s'))) (cols df)) (\<lambda>cs.
     Inr \<lparr>index = map (\<lambda>p. index df ! p) ps, cols = cs\<rparr>))"

text \<open>
  The rows of a frame at the positions \<open>ps\<close>, in that order: what the rows of a
  partition are when a row's label is its position.
\<close>

definition rows_at :: "frame \<Rightarrow> nat list \<Rightarrow> frame" where
  "rows_at df ps =
     \<lparr>index = map (\<lambda>p. index df ! p) ps,
      cols = map (\<lambda>(c, s). (c, map (\<lambda>p. s ! p) ps)) (cols df)\<rparr>"

text \<open>\<^verbatim>\<open>series.apply(f)\<close>: \<open>f\<close> on every value in order; the first exception ends it.\<close>

definition apply_series :: "(cell \<Rightarrow> error + cell) \<Rightarrow> cell list \<Rightarrow> error + cell list" where
  "apply_series f s = traverse f s"

text \<open>\<^verbatim>\<open>df[name] = series\<close>: replaces the column in place or appends it.\<close>

definition setitem :: "string \<Rightarrow> cell list \<Rightarrow> frame \<Rightarrow> frame" where
  "setitem name s df = df\<lparr>cols := AList.update name s (cols df)\<rparr>"

text \<open>
  The three notebook cells that add the derived columns to the global \<open>df\<close>. The lambdas
  index their argument, which raises TypeError on a number.
\<close>

definition on_str :: "(string \<Rightarrow> error + cell) \<Rightarrow> cell \<Rightarrow> error + cell" where
  "on_str f v = (case v of Str x \<Rightarrow> f x | Num _ \<Rightarrow> Inl TypeError)"

definition add_temper_truncated :: "frame \<Rightarrow> error + frame" where
  "add_temper_truncated df =
     bind_err (loc_col df ''temper'') (\<lambda>s.
     bind_err (apply_series (on_str (\<lambda>x. Inr (Str (temper_truncated x)))) s) (\<lambda>s'.
     Inr (setitem ''temper_truncated'' s' df)))"

definition add_temper_c0 :: "frame \<Rightarrow> error + frame" where
  "add_temper_c0 df =
     bind_err (loc_col df ''temper'') (\<lambda>s.
     bind_err (apply_series (on_str (\<lambda>x. bind_err (temper_c0 x) (\<lambda>c. Inr (Str [c])))) s) (\<lambda>s'.
     Inr (setitem ''temper_c0'' s' df)))"

definition add_temper_c1 :: "frame \<Rightarrow> error + frame" where
  "add_temper_c1 df =
     bind_err (loc_col df ''temper'') (\<lambda>s.
     bind_err (apply_series (on_str (\<lambda>x. bind_err (temper_c1 x) (\<lambda>n. Inr (Num (of_int n))))) s) (\<lambda>s'.
     Inr (setitem ''temper_c1'' s' df)))"

section \<open>The shared record store\<close>

text \<open>
  \<^verbatim>\<open>cross_validation\<close> receives the caller's DataFrame by reference. A computation of
  type \<open>'a pd\<close> runs against that object: it takes the frame as it is before the step and
  returns the result, or the exception, together with the frame as it is afterwards.
\<close>

type_synonym 'a pd = "frame \<Rightarrow> (error + 'a) \<times> frame"

definition return_pd :: "'a \<Rightarrow> 'a pd" where
  "return_pd x = (\<lambda>data. (Inr x, data))"

definition bind_pd :: "'a pd \<Rightarrow> ('a \<Rightarrow> 'b pd) \<Rightarrow> 'b pd" where
  "bind_pd m f = (\<lambda>data. case m data of (Inl e, data') \<Rightarrow> (Inl e, data') | (Inr x, data') \<Rightarrow> f x data')"

text \<open>A call that does not touch the caller's frame, and a read of it.\<close>

definition lift_pd :: "error + 'a \<Rightarrow> 'a pd" where
  "lift_pd m = (\<lambda>data. (m, data))"

definition read_pd :: "(frame \<Rightarrow> error + 'a) \<Rightarrow> 'a pd" where
  "read_pd f = (\<lambda>data. (f data, data))"

section \<open>The resampling strategies of scikit-learn\<close>

text \<open>
  \<^verbatim>\<open>LeaveOneOut\<close> and \<^verbatim>\<open>KFold\<close> come from \<^verbatim>\<open>sklearn.model_selection\<close>; the notebook
  only constructs them and iterates \<^verbatim>\<open>split\<close>. They are modelled after the library:
  \<^verbatim>\<open>KFold(n_splits)\<close> (with its default \<^verbatim>\<open>shuffle=False\<close>) raises ValueError for
  \<^verbatim>\<open>n_splits <= 1\<close>; its \<^verbatim>\<open>split\<close> raises ValueError for more splits than samples and
  otherwise cuts \<open>0 .. n - 1\<close> into consecutive folds, the first \<open>n mod n_splits\<close> of
  size \<open>n div n_splits + 1\<close> and the others of size \<open>n div n_splits\<close>.
  \<^verbatim>\<open>LeaveOneOut().split\<close> raises ValueError for fewer than two samples and otherwise
  tests each index alone, in order. Both yield, for each test fold, the indices outside
  the fold and the indices inside it, each in ascending order.
\<close>

datatype validator = LeaveOneOut | KFold int

text \<open>
  \<^verbatim>\<open>KFold(n_splits=k)\<close>: the constructor. A \<open>KFold\<close> object that exists has passed this
  check, so its \<open>n_splits\<close> is at least 2.
\<close>

definition KFold_init :: "int \<Rightarrow> error + validator" where
  "KFold_init n_splits = (if n_splits \<le> 1 then Inl ValueError else Inr (KFold n_splits))"

text \<open>
  \<^verbatim>\<open>KFold._iter_test_indices\<close>: \<open>fold_sizes\<close> is the array filled with
  \<^verbatim>\<open>n_samples // n_splits\<close> whose first \<^verbatim>\<open>n_samples % n_splits\<close> entries are
  incremented; \<open>fold_slices\<close> is the loop that yields \<^verbatim>\<open>indices[current:current + fold_size]\<close>
  and advances \<open>current\<close>.
\<close>

definition fold_sizes :: "nat \<Rightarrow> nat \<Rightarrow> nat list" where
  "fold_sizes n_samples n_splits =
     map (\<lambda>j. n_samples div n_splits + (if j < n_samples mod n_splits then 1 else 0))
       [0..<n_splits]"

fun fold_slices :: "nat list \<Rightarrow> nat \<Rightarrow> nat list list" where
  "fold_slices [] current = []"
| "fold_slices (fold_size # rest) current =
     [current..<current + fold_size] # fold_slices rest (current + fold_size)"

fun iter_test_indices :: "validator \<Rightarrow> nat \<Rightarrow> error + nat list list" where
  "iter_test_indices LeaveOneOut n_samples =
     (if n_samples \<le> 1 then Inl ValueError else Inr (map (\<lambda>i. [i]) [0..<n_samples]))"
| "iter_test_indices (KFold n_splits) n_samples =
     Inr (fold_slices (fold_sizes n_samples (nat n_splits)) 0)"

text \<open>
  \<^verbatim>\<open>BaseCrossValidator.split\<close>: each test fold becomes a boolean mask over
  \<open>0 .. n_samples - 1\<close>; the train indices are those where the mask is false, the test
  indices those where it is true.
\<close>

definition base_split :: "validator \<Rightarrow> nat \<Rightarrow> error + (nat list \<times> nat list) list" where
  "base_split v n_samples =
     bind_err (iter_test_indices v n_samples) (\<lambda>tests.
     Inr (map (\<lambda>test. (filter (\<lambda>i. i \<notin> set test) [0..<n_samples],
                        filter (\<lambda>i. i \<in> set test) [0..<n_samples])) tests))"

text \<open>
  \<^verbatim>\<open>validator.split(X)\<close> on a table of \<open>n_samples\<close> rows. For \<open>KFold\<close> the method
  first refuses more splits than samples.
\<close>

fun validator_split :: "validator \<Rightarrow> nat \<Rightarrow> error + (nat list \<times> nat list) list" where
  "validator_split LeaveOneOut n_samples = base_split LeaveOneOut n_samples"
| "validator_split (KFold n_splits) n_samples =
     (if n_splits > int n_samples then Inl ValueError
      else base_split (KFold n_splits) n_samples)"

section \<open>The encoder, the regressor and the score\<close>

text \<open>
  \<^verbatim>\<open>pd.get_dummies\<close> and \<^verbatim>\<open>RandomForestRegressor\<close> are library code whose results the
  notebook only passes on; they are parameters of the model. \<open>fit L random_state X y\<close>
  is the forest fitted from scratch with that seed (an integer seed makes the fit a
  function of its inputs), \<open>predict L rf X\<close> its predictions for the rows of \<open>X\<close>.
\<close>

record 'm library =
  get_dummies :: "frame \<Rightarrow> error + frame"
  fit :: "int \<Rightarrow> frame \<Rightarrow> cell list \<Rightarrow> error + 'm"
  predict :: "'m \<Rightarrow> frame \<Rightarrow> error + rat list"

text \<open>\<^verbatim>\<open>np.concatenate\<close> of a list of one-dimensional arrays: ValueError for no array.\<close>

definition concatenate :: "'a list list \<Rightarrow> error + 'a list" where
  "concatenate arrays = (if arrays = [] then Inl ValueError else Inr (concat arrays))"

text \<open>\<^verbatim>\<open>d[key]\<close> on a dict.\<close>

definition dict_get :: "('k \<times> 'v) list \<Rightarrow> 'k \<Rightarrow> error + 'v" where
  "dict_get d key = (case map_of d key of None \<Rightarrow> Inl KeyError | Some v \<Rightarrow> Inr v)"

text \<open>
  numpy computes in float64. The arithmetic that \<^verbatim>\<open>r2_score\<close> uses is a parameter
  of the model: \<open>'f\<close> is the type of float values (with the infinities and \<open>nan\<close>),
  \<open>float64\<close> the float of a finite value, and the other fields are numpy's rounded
  operations: elementwise \<^verbatim>\<open>a - b\<close>, \<^verbatim>\<open>a ** 2\<close>, \<^verbatim>\<open>a / b\<close>, the reductions
  \<^verbatim>\<open>sum\<close> and \<^verbatim>\<open>np.average\<close> of an array, and the comparison \<^verbatim>\<open>a != 0\<close>.
\<close>

record 'f numpy =
  float64 :: "rat \<Rightarrow> 'f"
  subtract :: "'f \<Rightarrow> 'f \<Rightarrow> 'f"
  square :: "'f \<Rightarrow> 'f"
  true_divide :: "'f \<Rightarrow> 'f \<Rightarrow> 'f"
  np_sum :: "'f list \<Rightarrow> 'f"
  average :: "'f list \<Rightarrow> 'f"
  not_zero :: "'f \<Rightarrow> bool"
  nan :: "'f"

text \<open>
  The input check of \<^verbatim>\<open>sklearn.metrics.r2_score\<close> raises ValueError for arrays of
  different lengths, for an empty array, and for a value that is not a number (a
  string that spells a number, which numpy would convert, is outside the model).
\<close>

definition as_float_array :: "cell list \<Rightarrow> error + rat list" where
  "as_float_array s =
     (if s = [] then Inl ValueError
      else traverse (\<lambda>v. case v of Num r \<Rightarrow> Inr r | Str _ \<Rightarrow> Inl ValueError) s)"

text \<open>
  \<^verbatim>\<open>sklearn.metrics.r2_score(y_true, y_pred)\<close>. For fewer than two samples the library
  warns and returns \<open>nan\<close>. Otherwise the score starts as 1.0; it is replaced by
  \<^verbatim>\<open>1 - numerator / denominator\<close> where both sums are not zero, and by 0.0 where the
  numerator is not zero and the denominator is. Nothing is raised for a denominator
  of zero.
\<close>

definition r2_score :: "'f numpy \<Rightarrow> cell list \<Rightarrow> rat list \<Rightarrow> error + 'f" where
  "r2_score np y_true y_pred =
     (if length y_true \<noteq> length y_pred then Inl ValueError
      else bind_err (as_float_array y_true) (\<lambda>yt.
        if length y_pred < 2 then Inr (nan np)
        else
          let t = map (float64 np) yt;
              p = map (float64 np) y_pred;
              numerator = np_sum np (map (\<lambda>(a, b). square np (subtract np a b)) (zip t p));
              denominator = np_sum np (map (\<lambda>a. square np (subtract np a (average np t))) t)
          in Inr (if not_zero np numerator
                  then (if not_zero np denominator
                        then subtract np (float64 np 1) (true_divide np numerator denominator)
                        else float64 np 0)
                  else float64 np 1)))"

text \<open>
  The quantities of the standard definition of the coefficient of determination, in
  the arithmetic \<open>np\<close>: the residual sum of squares, the total sum of squares about the
  mean of \<open>y_true\<close>, and one minus their quotient.
\<close>

definition residual_sum_of_squares :: "'f numpy \<Rightarrow> rat list \<Rightarrow> rat list \<Rightarrow> 'f" where
  "residual_sum_of_squares np yt yp =
     np_sum np (map (\<lambda>(t, p). square np (subtract np (float64 np t) (float64 np p))) (zip yt yp))"

definition total_sum_of_squares :: "'f numpy \<Rightarrow> rat list \<Rightarrow> 'f" where
  "total_sum_of_squares np yt =
     np_sum np (map (\<lambda>t. square np (subtract np (float64 np t) (average np (map (float64 np) yt)))) yt)"

definition coefficient_of_determination :: "'f numpy \<Rightarrow> rat list \<Rightarrow> rat list \<Rightarrow> 'f" where
  "coefficient_of_determination np yt yp =
     subtract np (float64 np 1)
       (true_divide np (residual_sum_of_squares np yt yp) (total_sum_of_squares np yt))"

text \<open>
  The float operations where they do not round: on values and intermediate results
  that are floats (small integers and their halves, quarters and so on) float64
  computes exactly this. \<open>NaN\<close> stands for \<open>nan\<close>; a quotient by zero, which
  \<^verbatim>\<open>r2_score\<close> never takes, is mapped to it.
\<close>

datatype score = Score rat | NaN

fun score_op :: "(rat \<Rightarrow> rat \<Rightarrow> rat) \<Rightarrow> score \<Rightarrow> score \<Rightarrow> score" where
  "score_op f (Score a) (Score b) = Score (f a b)"
| "score_op f _ _ = NaN"

fun score_divide :: "score \<Rightarrow> score \<Rightarrow> score" where
  "score_divide (Score a) (Score b) = (if b = 0 then NaN else Score (a / b))"
| "score_divide _ _ = NaN"

definition score_sum :: "score list \<Rightarrow> score" where
  "score_sum xs = foldr (score_op (+)) xs (Score 0)"

definition exact :: "score numpy" where
  "exact =
     \<lparr>float64 = Score,
      subtract = score_op (-),
      square = (\<lambda>a. score_op (*) a a),
      true_divide = score_divide,
      np_sum = score_sum,
      average = (\<lambda>xs. score_divide (score_sum xs) (Score (of_nat (length xs)))),
      not_zero = (\<lambda>a. a \<noteq> Score 0),
      nan = NaN\<rparr>"

section \<open>The evaluation harness\<close>

definition VALIDATORS :: "error + (string \<times> validator) list" where
  "VALIDATORS =
     bind_err (KFold_init 5) (\<lambda>k5.
     bind_err (KFold_init 15) (\<lambda>k15.
     bind_err (KFold_init 20) (\<lambda>k20.
     Inr [(''loocv'', LeaveOneOut), (''5foldcv'', k5), (''15foldcv'', k15), (''20foldcv'', k20)])))"

text \<open>
  The loop over the partitions. \<open>y_true\<close> and \<open>y_pred\<close> are the two Python lists, each
  appended to once per partition; \<open>model_input\<close> is the local encoded frame.
\<close>

fun cv_loop :: "'m library \<Rightarrow> int \<Rightarrow> frame \<Rightarrow> string \<Rightarrow> (nat list \<times> nat list) list \<Rightarrow>
    cell list list \<Rightarrow> rat list list \<Rightarrow> (cell list list \<times> rat list list) pd" where
  "cv_loop L random_state model_input y_col [] y_true y_pred = return_pd (y_true, y_pred)"
| "cv_loop L random_state model_input y_col ((train_index, test_index) # rest) y_true y_pred =
     bind_pd (read_pd (\<lambda>data. loc_rows_col data test_index y_col)) (\<lambda>yt.
     bind_pd (lift_pd (loc_rows model_input train_index)) (\<lambda>X_train.
     bind_pd (read_pd (\<lambda>data. loc_rows_col data train_index y_col)) (\<lambda>y_train.
     bind_pd (lift_pd (fit L random_state X_train y_train)) (\<lambda>random_forest.
     bind_pd (lift_pd (loc_rows model_input test_index)) (\<lambda>X_test.
     bind_pd (lift_pd (predict L random_forest X_test)) (\<lambda>yp.
     cv_loop L random_state model_input y_col rest (y_true @ [yt]) (y_pred @ [yp])))))))"

text \<open>
  The ordering contract is stated against the work done for one partition: the true
  values of the test rows, and the predictions for the test rows of a forest fitted on
  the train rows, both in the order of the partition's test indices.
\<close>

definition fit_predict_partition :: "'m library \<Rightarrow> int \<Rightarrow> frame \<Rightarrow> frame \<Rightarrow> string \<Rightarrow>
    nat list \<times> nat list \<Rightarrow> error + (cell list \<times> rat list)" where
  "fit_predict_partition L random_state model_input data y_col =
     (\<lambda>(train_index, test_index).
        bind_err (loc_rows_col data test_index y_col) (\<lambda>yt.
        bind_err (loc_rows model_input train_index) (\<lambda>X_train.
        bind_err (loc_rows_col data train_index y_col) (\<lambda>y_train.
        bind_err (fit L random_state X_train y_train) (\<lambda>random_forest.
        bind_err (loc_rows model_input test_index) (\<lambda>X_test.
        bind_err (predict L random_forest X_test) (\<lambda>yp.
        Inr (yt, yp))))))))"

text \<open>
  \<^verbatim>\<open>cross_validation(data, x_cols, y_col, random_state, validator)\<close>; the frame \<open>data\<close>
  is the store the computation runs against. Constructing the regressor raises nothing,
  and \<^verbatim>\<open>tqdm\<close> only reports progress. \<^verbatim>\<open>split\<close> is a generator, but everything it can
  raise it raises before its first partition, so the partitions are taken as a list.
\<close>

definition cross_validation :: "'m library \<Rightarrow> string list \<Rightarrow> string \<Rightarrow> int \<Rightarrow> string \<Rightarrow>
    (cell list \<times> rat list) pd" where
  "cross_validation L x_cols y_col random_state validator =
     bind_pd (lift_pd VALIDATORS) (\<lambda>registered.
     bind_pd (read_pd (\<lambda>data. loc_cols data x_cols)) (\<lambda>selected.
     bind_pd (lift_pd (get_dummies L selected)) (\<lambda>model_input.
     if validator = ''insample'' then
       bind_pd (read_pd (\<lambda>data. loc_col data y_col)) (\<lambda>y_true.
       bind_pd (lift_pd (fit L random_state model_input y_true)) (\<lambda>random_forest.
       bind_pd (lift_pd (predict L random_forest model_input)) (\<lambda>y_pred.
       return_pd (y_true, y_pred))))
     else
       bind_pd (lift_pd (dict_get registered validator)) (\<lambda>v.
       bind_pd (lift_pd (validator_split v (nrows model_input))) (\<lambda>partitions.
       bind_pd (cv_loop L random_state model_input y_col partitions [] []) (\<lambda>(y_true, y_pred).
       bind_pd (lift_pd (concatenate y_true)) (\<lambda>yt.
       bind_pd (lift_pd (concatenate y_pred)) (\<lambda>yp.
       return_pd (yt, yp)))))))))"

text \<open>\<^verbatim>\<open>calc_R2s(data, x_cols, y_col)\<close>: the dict \<open>validators\<close> in insertion order.\<close>

definition validators :: "(string \<times> string) list" where
  "validators =
     [(''insample'', ''In Sample''), (''loocv'', ''Leave One Out CV''),
      (''5foldcv'', ''5 Fold CV''), (''15foldcv'', ''15 Fold CV''),
      (''20foldcv'', ''20 Fold CV'')]"

fun calc_R2s_loop :: "'f numpy \<Rightarrow> 'm library \<Rightarrow> string list \<Rightarrow> string \<Rightarrow> (string \<times> string) list \<Rightarrow>
    (string \<times> 'f) list \<Rightarrow> (string \<times> 'f) list pd" where
  "calc_R2s_loop np L x_cols y_col [] r2_values = return_pd r2_values"
| "calc_R2s_loop np L x_cols y_col ((validator, name) # rest) r2_values =
     bind_pd (cross_validation L x_cols y_col 1234 validator) (\<lambda>(y_true, y_pred).
     bind_pd (lift_pd (r2_score np y_true y_pred)) (\<lambda>r2_value.
     calc_R2s_loop np L x_cols y_col rest (AList.update name r2_value r2_values)))"

text \<open>
  The score of one strategy, as the table reports it: the evaluation run for that
  strategy with the default seed, reduced by \<open>r2_score\<close>.
\<close>

definition strategy_score :: "'f numpy \<Rightarrow> 'm library \<Rightarrow> string list \<Rightarrow> string \<Rightarrow> frame \<Rightarrow> string \<Rightarrow>
    error + 'f" where
  "strategy_score np L x_cols y_col data validator =
     bind_err (fst (cross_validation L x_cols y_col 1234 validator data))
       (\<lambda>(y_true, y_pred). r2_score np y_true y_pred)"

definition calc_R2s :: "'f numpy \<Rightarrow> 'm library \<Rightarrow> string list \<Rightarrow> string \<Rightarrow> (string \<times> 'f) list pd" where
  "calc_R2s np L x_cols y_col = calc_R2s_loop np L x_cols y_col validators []"

section \<open>Concrete inputs\<close>

text \<open>
  To run the harness on concrete data the library parameters need values. In
  \<open>row_count_forest\<close> the encoder returns its input, the fitted model is the number of
  training rows, and every prediction is that number: the predictions show which rows
  each fit has seen. \<open>twenty_rows\<close> is a table of twenty records with the default
  index, one numeric input column and one target column; its values are chosen so that
  every sum and quotient of the scores is a float and \<open>exact\<close> is the float result.
\<close>

definition row_count_forest :: "nat library" where
  "row_count_forest =
     \<lparr>get_dummies = (\<lambda>selected. Inr selected),
      fit = (\<lambda>random_state X y. Inr (nrows X)),
      predict = (\<lambda>random_forest X. Inr (replicate (nrows X) (of_nat random_forest)))\<rparr>"

definition twenty_targets :: "cell list" where
  "twenty_targets =
     [Num 0, Num 2, Num 0, Num 2, Num 1, Num 0, Num 2, Num 0, Num 2, Num 1,
      Num 0, Num 2, Num 0, Num 2, Num 1, Num 0, Num 2, Num 0, Num 2, Num 1]"

definition twenty_rows :: frame where
  "twenty_rows =
     \<lparr>index = default_index 20,
      cols = [(''x'', map (\<lambda>i. Num (of_nat i)) [0..<20]), (''y'', twenty_targets)]\<rparr>"

section \<open>Basic facts\<close>

lemma bind_err_simps [simp]:
  "bind_err (Inl e) f = Inl e" "bind_err (Inr x) f = f x"
  by (simp_all add: bind_err_def)

lemma apply_on_str_total:
  "apply_series (on_str (\<lambda>x. Inr (g x))) (map Str xs) = Inr (map g xs)"
  by (induction xs) (simp_all add: apply_series_def on_str_def)

section \<open>The temper columns: properties\<close>




text \<open>
  The empty string is a malformed temper code, and two of the three derived values are
  computed for it without any exception.
\<close>

theorem empty_temper_counterexample:
  "temper_truncated '''' = '''' \<and> temper_c1 '''' = Inr 1"
  by (simp add: temper_truncated_def temper_c1_def)

lemma apply_c0_empty:
  "[] \<in> set xs \<Longrightarrow>
   apply_series (on_str (\<lambda>x. bind_err (temper_c0 x) (\<lambda>c. Inr (Str [c])))) (map Str xs)
     = Inl IndexError"
proof (induction xs)
  case Nil
  then show ?case by simp
next
  case (Cons x xs)
  show ?case
  proof (cases "x = []")
    case True
    then show ?thesis by (simp add: apply_series_def on_str_def temper_c0_def str_index_def)
  next
    case False
    with Cons show ?thesis
      by (simp add: apply_series_def on_str_def temper_c0_def str_index_def)
  qed
qed

text \<open>
  Claim C9, as the code has it. No exception class for malformed tempers exists in the
  notebook. On the empty string only \<open>temper_c0\<close> fails, with the IndexError of
  \<^verbatim>\<open>x[0]\<close>; \<open>temper_truncated\<close> returns the empty string and \<open>temper_c1\<close> the
  default 1. \<open>temper_c1\<close> fails, with the ValueError of \<^verbatim>\<open>int\<close>, when the second
  character is not a decimal digit. So on a \<open>temper\<close> column of strings that contains
  the empty string, the cell for \<open>temper_c0\<close> raises IndexError and the cell for
  \<open>temper_truncated\<close> stores its column.
\<close>

theorem malformed_temper:
  "temper_c0 '''' = Inl IndexError
   \<and> temper_truncated '''' = ''''
   \<and> temper_c1 '''' = Inr 1
   \<and> (1 < length x \<and> \<not> (48 \<le> (of_char (x ! 1) :: nat) \<and> (of_char (x ! 1) :: nat) \<le> 57)
        \<longrightarrow> temper_c1 x = Inl ValueError)
   \<and> (loc_col df ''temper'' = Inr (map Str xs) \<and> [] \<in> set xs \<longrightarrow>
        add_temper_c0 df = Inl IndexError
        \<and> add_temper_truncated df =
            Inr (setitem ''temper_truncated'' (map (\<lambda>x. Str (temper_truncated x)) xs) df))"
proof -
  have lambdas: "temper_c0 '''' = Inl IndexError" "temper_truncated '''' = ''''"
    "temper_c1 '''' = Inr 1"
    by (simp_all add: temper_truncated_def temper_c0_def temper_c1_def str_index_def)
  have nondigit: "temper_c1 x = Inl ValueError"
    if "1 < length x" "\<not> (48 \<le> (of_char (x ! 1) :: nat) \<and> (of_char (x ! 1) :: nat) \<le> 57)"
    using that by (auto simp: temper_c1_def str_index_def py_int_def)
  have cells: "add_temper_c0 df = Inl IndexError"
    "add_temper_truncated df =
       Inr (setitem ''temper_truncated'' (map (\<lambda>x. Str (temper_truncated x)) xs) df)"
    if "loc_col df ''temper'' = Inr (map Str xs)" "[] \<in> set xs"
    using that
    by (simp_all add: add_temper_truncated_def add_temper_c0_def apply_on_str_total apply_c0_empty)
  from lambdas nondigit cells show ?thesis by blast
qed

theorem malformed_temper_witness:
  "temper_c1 ''TX'' = Inl ValueError
   \<and> add_temper_c0 \<lparr>index = [0, 1], cols = [(''temper'', [Str ''T6'', Str ''''])]\<rparr> = Inl IndexError
   \<and> add_temper_truncated \<lparr>index = [0, 1], cols = [(''temper'', [Str ''T6'', Str ''''])]\<rparr>
       = Inr \<lparr>index = [0, 1], cols = [(''temper'', [Str ''T6'', Str '''']),
                                  (''temper_truncated'', [Str ''T6'', Str ''''])]\<rparr>"
proof -
  let ?df = "\<lparr>index = [0, 1], cols = [(''temper'', [Str ''T6'', Str ''''])]\<rparr>"
  have col: "loc_col ?df ''temper'' = Inr (map Str [''T6'', ''''])"
    by (simp add: loc_col_def)
  from malformed_temper [of "''TX''" ?df "[''T6'', '''']"] col show ?thesis
    by (simp add: setitem_def temper_truncated_def)
qed

section \<open>The resampling strategies: properties\<close>

lemma sum_list_fold_sizes:
  assumes "0 < k"
  shows "sum_list (fold_sizes n k) = n"
proof -
  have r: "n mod k \<le> k" using assms by simp
  have "sum_list (map (\<lambda>j. q + (if j < r then 1 else 0)) [0..<m]) = m * q + min r m" for q r m :: nat
    by (induction m) auto
  from this [of "n div k" "n mod k" k] r show ?thesis
    by (simp add: fold_sizes_def min_def)
qed

lemma length_fold_slices: "length (fold_slices ss c) = length ss"
  by (induction ss arbitrary: c) auto

lemma concat_fold_slices: "concat (fold_slices ss c) = [c..<c + sum_list ss]"
proof (induction ss arbitrary: c)
  case Nil
  then show ?case by simp
next
  case (Cons s ss)
  have "[c..<c + s + sum_list ss] = [c..<c + s] @ [c + s..<c + s + sum_list ss]"
    by (metis le_add1 upt_add_eq_append)
  with Cons show ?case by (simp add: add.assoc)
qed

lemma nth_fold_slices:
  "i < length ss \<Longrightarrow>
   fold_slices ss c ! i = [c + sum_list (take i ss)..<c + sum_list (take (Suc i) ss)]"
proof (induction ss arbitrary: c i)
  case Nil
  then show ?case by simp
next
  case (Cons s ss)
  show ?case
  proof (cases i)
    case 0
    then show ?thesis by simp
  next
    case (Suc j)
    with Cons.prems have "j < length ss" by simp
    from Cons.IH [OF this, of "c + s"] Suc show ?thesis by (simp add: add.assoc)
  qed
qed

lemma sum_list_take_mono:
  fixes ss :: "nat list"
  shows "i \<le> j \<Longrightarrow> sum_list (take i ss) \<le> sum_list (take j ss)"
proof (induction ss arbitrary: i j)
  case Nil
  then show ?case by simp
next
  case (Cons s ss)
  then show ?case by (cases i; cases j) auto
qed

lemma fold_slices_disjoint:
  assumes "i < j" "j < length ss"
  shows "set (fold_slices ss c ! i) \<inter> set (fold_slices ss c ! j) = {}"
proof -
  have "sum_list (take (Suc i) ss) \<le> sum_list (take j ss)"
    using assms by (intro sum_list_take_mono) simp
  then show ?thesis
    using assms by (auto simp: nth_fold_slices)
qed

lemma filter_mem_upt:
  assumes "b \<le> n"
  shows "filter (\<lambda>i. i \<in> set [a..<b]) [0..<n] = [a..<b]"
proof (rule sorted_distinct_set_unique)
  show "sorted (filter (\<lambda>i. i \<in> set [a..<b]) [0..<n])" by (simp add: sorted_wrt_filter)
  show "set (filter (\<lambda>i. i \<in> set [a..<b]) [0..<n]) = set [a..<b]" using assms by auto
qed simp_all

lemma fold_slices_bound:
  "t \<in> set (fold_slices ss c) \<Longrightarrow> \<exists>a b. t = [a..<b] \<and> b \<le> c + sum_list ss"
proof (induction ss arbitrary: c)
  case Nil
  then show ?case by simp
next
  case (Cons s ss)
  from Cons.prems have "t = [c..<c + s] \<or> t \<in> set (fold_slices ss (c + s))" by simp
  then show ?case
  proof
    assume "t = [c..<c + s]"
    then show ?thesis by (intro exI [of _ c] exI [of _ "c + s"]) simp
  next
    assume "t \<in> set (fold_slices ss (c + s))"
    from Cons.IH [OF this] show ?thesis by (auto simp: add.assoc)
  qed
qed

lemma map_snd_base_split_KFold:
  assumes "0 < k"
  shows "\<exists>parts. base_split (KFold (int k)) n = Inr parts
     \<and> map snd parts = fold_slices (fold_sizes n k) 0
     \<and> map fst parts = map (\<lambda>t. filter (\<lambda>i. i \<notin> set t) [0..<n]) (fold_slices (fold_sizes n k) 0)"
proof -
  let ?ts = "fold_slices (fold_sizes n k) 0"
  have "filter (\<lambda>i. i \<in> set t) [0..<n] = t" if "t \<in> set ?ts" for t
  proof -
    from fold_slices_bound [OF that] sum_list_fold_sizes [OF assms, of n]
    obtain a b where "t = [a..<b]" "b \<le> n" by auto
    then show ?thesis using filter_mem_upt [of b n a] by simp
  qed
  then have "map (\<lambda>t. filter (\<lambda>i. i \<in> set t) [0..<n]) ?ts = ?ts"
    by (simp add: map_idI)
  then show ?thesis
    by (simp add: base_split_def comp_def)
qed

lemma bind_KFold_init:
  "2 \<le> k \<Longrightarrow> k \<le> int n \<Longrightarrow>
   bind_err (KFold_init k) (\<lambda>v. validator_split v n) = base_split (KFold (int (nat k))) n"
  by (simp add: KFold_init_def)

text \<open>
  Claim C1. For \<open>2 \<le> k \<le> N\<close>, constructing \<open>KFold(k)\<close> and splitting \<open>N\<close> rows
  succeeds with exactly \<open>k\<close> partitions. The test folds, one after the other, are
  \<open>0 .. N - 1\<close> in index order (consecutive and not shuffled); they are pairwise
  disjoint and their union is \<open>{0 .. N - 1}\<close>; each train set is the indices outside
  the test fold.
\<close>

theorem KFold_partitions:
  assumes "2 \<le> k" and "k \<le> int N"
  shows "\<exists>parts. bind_err (KFold_init k) (\<lambda>v. validator_split v N) = Inr parts
     \<and> length parts = nat k
     \<and> concat (map snd parts) = [0..<N]
     \<and> (\<forall>i < length parts. \<forall>j < length parts. i \<noteq> j \<longrightarrow>
          set (snd (parts ! i)) \<inter> set (snd (parts ! j)) = {})
     \<and> (\<Union>test \<in> set (map snd parts). set test) = {0..<N}
     \<and> (\<forall>(train, test) \<in> set parts. train = filter (\<lambda>i. i \<notin> set test) [0..<N])"
proof -
  let ?ts = "fold_slices (fold_sizes N (nat k)) 0"
  from assms have k: "0 < nat k" by simp
  from map_snd_base_split_KFold [OF k, of N] obtain parts where
    run: "base_split (KFold (int (nat k))) N = Inr parts" and
    tests: "map snd parts = ?ts" and
    trains: "map fst parts = map (\<lambda>t. filter (\<lambda>i. i \<notin> set t) [0..<N]) ?ts"
    by blast
  have len: "length parts = nat k"
    using arg_cong [OF tests, of length] by (simp add: length_fold_slices fold_sizes_def)
  have cat: "concat (map snd parts) = [0..<N]"
    by (simp add: tests concat_fold_slices sum_list_fold_sizes [OF k])
  have disj: "set (snd (parts ! i)) \<inter> set (snd (parts ! j)) = {}"
    if "i < length parts" "j < length parts" "i \<noteq> j" for i j
  proof -
    have nth: "snd (parts ! m) = ?ts ! m" if "m < length parts" for m
      using that tests by (metis nth_map)
    have l: "length parts = length (fold_sizes N (nat k))"
      using arg_cong [OF tests, of length] by (simp add: length_fold_slices)
    from that consider "i < j" | "j < i" by linarith
    then show ?thesis
    proof cases
      case 1
      with that l show ?thesis by (simp add: nth fold_slices_disjoint)
    next
      case 2
      with that l fold_slices_disjoint [of j i "fold_sizes N (nat k)" 0] show ?thesis
        by (simp add: nth Int_commute)
    qed
  qed
  have un: "(\<Union>test \<in> set (map snd parts). set test) = {0..<N}"
    using arg_cong [OF cat, of set] by simp
  have tr: "train = filter (\<lambda>i. i \<notin> set test) [0..<N]" if "(train, test) \<in> set parts" for train test
  proof -
    from that obtain m where m: "m < length parts" "parts ! m = (train, test)"
      by (auto simp: in_set_conv_nth)
    then have "train = map fst parts ! m" "test = map snd parts ! m" by simp_all
    with m(1) len tests trains show ?thesis
      by (simp add: length_fold_slices fold_sizes_def)
  qed
  from run len cat disj un tr bind_KFold_init [OF assms] show ?thesis by auto
qed

theorem KFold_partitions_witness:
  "(2::int) \<le> 3 \<and> 3 \<le> int 7 \<and>
   (\<exists>parts. bind_err (KFold_init 3) (\<lambda>v. validator_split v 7) = Inr parts
     \<and> length parts = nat 3
     \<and> concat (map snd parts) = [0..<7]
     \<and> (\<forall>i < length parts. \<forall>j < length parts. i \<noteq> j \<longrightarrow>
          set (snd (parts ! i)) \<inter> set (snd (parts ! j)) = {})
     \<and> (\<Union>test \<in> set (map snd parts). set test) = {0..<7}
     \<and> (\<forall>(train, test) \<in> set parts. train = filter (\<lambda>i. i \<notin> set test) [0..<7]))"
  using KFold_partitions [of 3 7] by simp

text \<open>
  Claim C7. For every row count \<open>N\<close>, constructing \<open>KFold(k)\<close> and then splitting
  \<open>N\<close> rows fails whenever \<open>k < 2\<close> or \<open>k > N\<close>. The exception is the library's
  ValueError, raised by the constructor for \<open>k < 2\<close> and by \<^verbatim>\<open>split\<close> for
  \<open>k > N\<close>.
\<close>

theorem KFold_invalid_fold_count:
  assumes "k < 2 \<or> int N < k"
  shows "bind_err (KFold_init k) (\<lambda>v. validator_split v N) = Inl ValueError"
  using assms by (auto simp: KFold_init_def)

theorem KFold_invalid_fold_count_witness:
  "((5::int) < 2 \<or> int 3 < 5) \<and> bind_err (KFold_init 5) (\<lambda>v. validator_split v 3) = Inl ValueError"
  using KFold_invalid_fold_count [of 5 3] by simp

text \<open>
  \<open>LeaveOneOut\<close> on a single row yields no partition: the library refuses fewer than
  two samples.
\<close>

theorem LeaveOneOut_single_row_counterexample:
  "validator_split LeaveOneOut 1 = Inl ValueError"
  by (simp add: base_split_def)

lemma filter_eq_upt: "i < n \<Longrightarrow> filter (\<lambda>j. j = i) [0..<n] = [i]"
  using filter_mem_upt [of "Suc i" n i] by (simp add: eq_commute [of i] cong: conj_cong)

lemma LeaveOneOut_split:
  "validator_split LeaveOneOut N =
     (if N \<le> 1 then Inl ValueError
      else Inr (map (\<lambda>i. (filter (\<lambda>j. j \<noteq> i) [0..<N], [i])) [0..<N]))"
proof -
  have "map (\<lambda>i. (filter (\<lambda>j. j \<noteq> i) [0..<N], filter (\<lambda>j. j = i) [0..<N])) [0..<N]
      = map (\<lambda>i. (filter (\<lambda>j. j \<noteq> i) [0..<N], [i])) [0..<N]"
    by (rule map_cong) (simp_all add: filter_eq_upt)
  then show ?thesis by (simp add: base_split_def comp_def)
qed

lemma KFold_split_tests:
  assumes "validator_split (KFold (int k)) n = Inr parts" and "0 < k"
  shows "concat (map snd parts) = [0..<n]" and "length parts = k"
proof -
  from assms(1) have run: "base_split (KFold (int k)) n = Inr parts"
    by (simp split: if_splits)
  with map_snd_base_split_KFold [OF assms(2), of n]
  have tests: "map snd parts = fold_slices (fold_sizes n k) 0" by auto
  then show "concat (map snd parts) = [0..<n]"
    by (simp add: concat_fold_slices sum_list_fold_sizes [OF assms(2)])
  from arg_cong [OF tests, of length] show "length parts = k"
    by (simp add: length_fold_slices fold_sizes_def)
qed

text \<open>
  Claim C2, as the code has it. For every row count \<open>N \<ge> 2\<close>, \<open>LeaveOneOut\<close>
  produces exactly \<open>N\<close> partitions; partition \<open>i\<close> has the test set \<open>[i]\<close> and as
  train set all other indices, so the test sets, one after the other, are
  \<open>0 .. N - 1\<close> with no repeats.
\<close>

theorem LeaveOneOut_partitions:
  assumes "2 \<le> N"
  shows "\<exists>parts. validator_split LeaveOneOut N = Inr parts
     \<and> length parts = N
     \<and> (\<forall>i < N. parts ! i = (filter (\<lambda>j. j \<noteq> i) [0..<N], [i]))
     \<and> concat (map snd parts) = [0..<N]"
proof -
  let ?parts = "map (\<lambda>i. (filter (\<lambda>j. j \<noteq> i) [0..<N], [i])) [0..<N]"
  from assms have run: "validator_split LeaveOneOut N = Inr ?parts"
    unfolding LeaveOneOut_split by simp
  have "concat (map snd ?parts) = [0..<N]"
    by (simp add: comp_def)
  with run show ?thesis by (intro exI [of _ ?parts]) simp
qed

theorem LeaveOneOut_partitions_witness:
  "(2::nat) \<le> 3 \<and>
   (\<exists>parts. validator_split LeaveOneOut 3 = Inr parts
     \<and> length parts = 3
     \<and> (\<forall>i < 3. parts ! i = (filter (\<lambda>j. j \<noteq> i) [0..<3], [i]))
     \<and> concat (map snd parts) = [0..<3])"
  using LeaveOneOut_partitions [of 3] by simp

section \<open>The evaluation harness: properties\<close>

lemma VALIDATORS_eq:
  "VALIDATORS = Inr [(''loocv'', LeaveOneOut), (''5foldcv'', KFold 5),
                     (''15foldcv'', KFold 15), (''20foldcv'', KFold 20)]"
  by (simp add: VALIDATORS_def KFold_init_def)

lemma bind_pd_simps:
  "bind_pd (return_pd x) f data = f x data"
  "bind_pd (lift_pd m) f data = (case m of Inl e \<Rightarrow> (Inl e, data) | Inr x \<Rightarrow> f x data)"
  "bind_pd (read_pd g) f data = (case g data of Inl e \<Rightarrow> (Inl e, data) | Inr x \<Rightarrow> f x data)"
  by (simp_all add: bind_pd_def return_pd_def lift_pd_def read_pd_def split: sum.splits)

lemma bind_pd_pure:
  assumes "m data = (r, data)"
  shows "bind_pd m f data = (case r of Inl e \<Rightarrow> (Inl e, data) | Inr x \<Rightarrow> f x data)"
  using assms by (simp add: bind_pd_def split: sum.splits)

lemma cv_loop_run:
  "cv_loop L rs X y_col parts y_true y_pred data =
     (bind_err (traverse (fit_predict_partition L rs X data y_col) parts)
        (\<lambda>res. Inr (y_true @ map fst res, y_pred @ map snd res)), data)"
proof (induction parts arbitrary: y_true y_pred)
  case Nil
  then show ?case by (simp add: return_pd_def)
next
  case (Cons p parts)
  obtain train test where p: "p = (train, test)" by (cases p)
  show ?case
    unfolding p
    by (auto simp: bind_pd_simps Cons.IH fit_predict_partition_def bind_err_def split: sum.splits)
qed

lemma cross_validation_run:
  "cross_validation L x_cols y_col rs v data =
     (bind_err (loc_cols data x_cols) (\<lambda>selected.
      bind_err (get_dummies L selected) (\<lambda>model_input.
      if v = ''insample'' then
        bind_err (loc_col data y_col) (\<lambda>y_true.
        bind_err (fit L rs model_input y_true) (\<lambda>random_forest.
        bind_err (predict L random_forest model_input) (\<lambda>y_pred.
        Inr (y_true, y_pred))))
      else
        bind_err (dict_get [(''loocv'', LeaveOneOut), (''5foldcv'', KFold 5),
                            (''15foldcv'', KFold 15), (''20foldcv'', KFold 20)] v) (\<lambda>spl.
        bind_err (validator_split spl (nrows model_input)) (\<lambda>parts.
        bind_err (traverse (fit_predict_partition L rs model_input data y_col) parts) (\<lambda>res.
        bind_err (concatenate (map fst res)) (\<lambda>yt.
        bind_err (concatenate (map snd res)) (\<lambda>yp.
        Inr (yt, yp)))))))), data)"
  unfolding cross_validation_def VALIDATORS_eq
  by (auto simp: bind_pd_simps bind_pd_pure [OF cv_loop_run] return_pd_def bind_err_def
      split: sum.splits)

text \<open>
  Claim C10. For every data table, \<open>x_cols\<close>, \<open>y_col\<close>, seed and validator name, the
  data table after a call of \<open>cross_validation\<close> is the data table before it, whether
  the call returns or raises: every access of the function to \<open>data\<close> is a read, and
  the encoder and the regressor work on copies.
\<close>

theorem cross_validation_frame:
  "snd (cross_validation L x_cols y_col random_state validator data) = data"
  by (simp add: cross_validation_run)

lemma cross_validation_pure:
  "cross_validation L x_cols y_col rs v data = (fst (cross_validation L x_cols y_col rs v data), data)"
  by (simp add: cross_validation_run)

lemma bind_cross_validation:
  "bind_pd (cross_validation L x_cols y_col rs v) f data =
     (case fst (cross_validation L x_cols y_col rs v data) of
        Inl e \<Rightarrow> (Inl e, data) | Inr r \<Rightarrow> f r data)"
  by (rule bind_pd_pure) (rule cross_validation_pure)

lemma traverse_KeyError:
  assumes "x \<in> set xs" and "f x = Inl KeyError" and "\<And>y e. f y = Inl e \<Longrightarrow> e = KeyError"
  shows "traverse f xs = Inl KeyError"
  using assms(1)
proof (induction xs)
  case Nil
  then show ?case by simp
next
  case (Cons y ys)
  show ?case
  proof (cases "f y")
    case (Inl e)
    with assms(3) show ?thesis by simp
  next
    case (Inr b)
    show ?thesis
    proof (cases "x = y")
      case True
      with Inr assms(2) show ?thesis by simp
    next
      case False
      with Cons have "traverse f ys = Inl KeyError" by simp
      with Inr show ?thesis by simp
    qed
  qed
qed

lemma loc_cols_missing:
  assumes "c \<in> set x_cols" and "c \<notin> fst ` set (cols data)"
  shows "loc_cols data x_cols = Inl KeyError"
proof -
  let ?f = "\<lambda>c. bind_err (loc_col data c) (\<lambda>s. Inr (c, s))"
  from assms(2) have "map_of (cols data) c = None" by (simp add: map_of_eq_None_iff)
  then have "?f c = Inl KeyError" by (simp add: loc_col_def)
  moreover have "e = KeyError" if "?f y = Inl e" for y e
    using that by (auto simp: loc_col_def split: option.splits)
  ultimately have "traverse ?f x_cols = Inl KeyError"
    using assms(1) by (intro traverse_KeyError [where x = c]) auto
  then show ?thesis by (simp add: loc_cols_def)
qed

text \<open>
  Claim C6. When \<open>x_cols\<close> names a column that the records do not have, the encoding
  step fails with the exception for a missing column (pandas raises KeyError), so does
  the call of \<open>cross_validation\<close> for every validator and the call of \<open>calc_R2s\<close>, and
  the record store is left as it was.
\<close>

theorem missing_column:
  assumes "c \<in> set x_cols" and "c \<notin> fst ` set (cols data)"
  shows "bind_err (loc_cols data x_cols) (get_dummies L) = Inl KeyError
    \<and> cross_validation L x_cols y_col random_state validator data = (Inl KeyError, data)
    \<and> calc_R2s np L x_cols y_col data = (Inl KeyError, data)"
proof -
  note miss = loc_cols_missing [OF assms]
  have cv: "cross_validation L x_cols y_col rs v data = (Inl KeyError, data)" for rs v
    by (simp add: cross_validation_run miss)
  have "calc_R2s np L x_cols y_col data = (Inl KeyError, data)"
    by (simp add: calc_R2s_def validators_def bind_cross_validation cv)
  with miss cv show ?thesis by simp
qed

theorem missing_column_witness:
  "''nonexistent_col'' \<in> set [''nonexistent_col'']
   \<and> ''nonexistent_col'' \<notin> fst ` set (cols \<lparr>index = [0, 1], cols = [(''x'', [Num 1, Num 2]), (''y'', [Num 3, Num 4])]\<rparr>)
   \<and> cross_validation row_count_forest [''nonexistent_col''] ''y'' 1234 ''loocv''
        \<lparr>index = [0, 1], cols = [(''x'', [Num 1, Num 2]), (''y'', [Num 3, Num 4])]\<rparr>
      = (Inl KeyError, \<lparr>index = [0, 1], cols = [(''x'', [Num 1, Num 2]), (''y'', [Num 3, Num 4])]\<rparr>)"
proof -
  let ?df = "\<lparr>index = [0, 1], cols = [(''x'', [Num 1, Num 2]), (''y'', [Num 3, Num 4])]\<rparr>"
  have a: "''nonexistent_col'' \<in> set [''nonexistent_col'']" by simp
  have b: "''nonexistent_col'' \<notin> fst ` set (cols ?df)" by simp
  from missing_column [OF a b, of row_count_forest "''y''" 1234 "''loocv''" exact] a b show ?thesis by blast
qed

lemma traverse_Inr:
  "traverse f xs = Inr ys \<Longrightarrow> list_all2 (\<lambda>x y. f x = Inr y) xs ys"
proof (induction xs arbitrary: ys)
  case Nil
  then show ?case by simp
next
  case (Cons x xs)
  then show ?case by (auto simp: bind_err_def split: sum.splits)
qed

lemma fit_predict_partition_col:
  assumes "fit_predict_partition L rs X data y_col p = Inr r"
  shows "\<exists>ycol. loc_col data y_col = Inr ycol"
  using assms
  by (cases p) (auto simp: fit_predict_partition_def loc_rows_col_def bind_err_def split: sum.splits)

lemma registered_split_tests:
  assumes "dict_get [(''loocv'', LeaveOneOut), (''5foldcv'', KFold 5),
                     (''15foldcv'', KFold 15), (''20foldcv'', KFold 20)] v = Inr spl"
    and "validator_split spl n = Inr parts"
  shows "concat (map snd parts) = [0..<n] \<and> parts \<noteq> []"
proof -
  from assms(1) consider "spl = LeaveOneOut" | "spl = KFold (int 5)" | "spl = KFold (int 15)"
    | "spl = KFold (int 20)"
    by (auto simp: dict_get_def split: if_splits)
  then show ?thesis
  proof cases
    case 1
    from assms(2) show ?thesis
      unfolding 1 LeaveOneOut_split by (auto simp: comp_def split: if_splits)
  next
    case 2
    from KFold_split_tests [of 5 n parts] assms(2) 2 show ?thesis by auto
  next
    case 3
    from KFold_split_tests [of 15 n parts] assms(2) 3 show ?thesis by auto
  next
    case 4
    from KFold_split_tests [of 20 n parts] assms(2) 4 show ?thesis by auto
  qed
qed

lemma traverse_append:
  "traverse f (xs @ ys) =
     bind_err (traverse f xs) (\<lambda>a. bind_err (traverse f ys) (\<lambda>b. Inr (a @ b)))"
  by (induction xs) (auto simp: bind_err_def split: sum.splits)

lemma traverse_map:
  "(\<And>x. x \<in> set xs \<Longrightarrow> f x = Inr (g x)) \<Longrightarrow> traverse f xs = Inr (map g xs)"
  by (induction xs) simp_all

lemma loc_labels_append:
  "loc_labels ix (xs @ ys) =
     bind_err (loc_labels ix xs) (\<lambda>a. bind_err (loc_labels ix ys) (\<lambda>b. Inr (a @ b)))"
  by (auto simp: loc_labels_def traverse_append bind_err_def split: sum.splits)

lemma loc_labels_Nil: "loc_labels ix [] = Inr []"
  by (simp add: loc_labels_def)

lemma fit_predict_partition_true:
  assumes "fit_predict_partition L rs X data y_col (train, test) = Inr r"
    and "loc_col data y_col = Inr ycol"
  shows "\<exists>ps. loc_labels (index data) test = Inr ps \<and> fst r = map (\<lambda>p. ycol ! p) ps"
  using assms
  by (auto simp: fit_predict_partition_def loc_rows_col_def take_rows_def bind_err_def
      split: sum.splits if_splits)

lemma concat_true_values:
  assumes "list_all2 (\<lambda>p r. fit_predict_partition L rs X data y_col p = Inr r) parts res"
    and "loc_col data y_col = Inr ycol"
  shows "\<exists>rows. loc_labels (index data) (concat (map snd parts)) = Inr rows
    \<and> concat (map fst res) = map (\<lambda>p. ycol ! p) rows"
  using assms(1)
proof (induction parts res rule: list_all2_induct)
  case Nil
  then show ?case by (simp add: loc_labels_Nil)
next
  case (Cons p ps r rs')
  obtain train test where p: "p = (train, test)" by (cases p)
  from Cons(1) p fit_predict_partition_true [OF _ assms(2), of L rs X train test r]
  obtain a where a: "loc_labels (index data) test = Inr a" "fst r = map (\<lambda>p. ycol ! p) a"
    by auto
  from Cons.IH obtain b where b: "loc_labels (index data) (concat (map snd ps)) = Inr b"
    "concat (map fst rs') = map (\<lambda>p. ycol ! p) b" by auto
  from a b p show ?case
    by (intro exI [of _ "a @ b"]) (simp add: loc_labels_append)
qed

lemma label_positions_default:
  assumes "i < n"
  shows "label_positions (default_index n) (int i) = [i]"
proof -
  have "filter (\<lambda>p. map int [0..<n] ! p = int i) [0..<n] = filter (\<lambda>p. p = i) [0..<n]"
    by (rule filter_cong) simp_all
  with assms show ?thesis
    by (simp add: label_positions_def default_index_def filter_eq_upt)
qed

lemma loc_labels_default:
  assumes "list_all (\<lambda>i. i < n) labels"
  shows "loc_labels (default_index n) labels = Inr labels"
proof -
  have "traverse (\<lambda>i. let ps = label_positions (default_index n) (int i)
                       in if ps = [] then Inl KeyError else Inr ps) labels
      = Inr (map (\<lambda>i. [i]) labels)"
    using assms by (intro traverse_map) (simp add: list_all_iff label_positions_default)
  then show ?thesis by (simp add: loc_labels_def comp_def)
qed

lemma loc_rows_default:
  assumes "index X = default_index n" and "well_formed X" and "list_all (\<lambda>i. i < n) labels"
  shows "loc_rows X labels = Inr (rows_at X labels)"
proof -
  from assms(1) have n: "nrows X = n" by (simp add: nrows_def default_index_def)
  have "traverse (\<lambda>(c, s). bind_err (take_rows labels s) (\<lambda>s'. Inr (c, s'))) (cols X)
      = Inr (map (\<lambda>(c, s). (c, map (\<lambda>p. s ! p) labels)) (cols X))"
  proof (rule traverse_map)
    fix x assume x: "x \<in> set (cols X)"
    obtain c s where cs: "x = (c, s)" by (cases x)
    from x cs assms(2) n have "length s = n" by (auto simp: well_formed_def list_all_iff)
    with assms(3) cs
    show "(case x of (c, s) \<Rightarrow> bind_err (take_rows labels s) (\<lambda>s'. Inr (c, s')))
        = Inr (case x of (c, s) \<Rightarrow> (c, map (\<lambda>p. s ! p) labels))"
      by (simp add: take_rows_def)
  qed
  then show ?thesis
    by (simp add: loc_rows_def assms(1) loc_labels_default [OF assms(3)] rows_at_def)
qed

lemma split_indices_bound:
  assumes "validator_split v n = Inr parts" and "(train, test) \<in> set parts"
  shows "list_all (\<lambda>i. i < n) train \<and> list_all (\<lambda>i. i < n) test"
proof -
  from assms(1) have "base_split v n = Inr parts"
    by (cases v) (simp_all split: if_splits)
  with assms(2) show ?thesis
    by (auto simp: base_split_def bind_err_def list_all_iff split: sum.splits)
qed

lemma fit_predict_partition_default:
  assumes run: "fit_predict_partition L rs X data y_col (train, test) = Inr r"
    and ycol: "loc_col data y_col = Inr ycol"
    and ix: "index data = default_index (length ycol)" "index X = default_index (length ycol)"
    and wf: "well_formed X"
    and bound: "list_all (\<lambda>i. i < length ycol) train" "list_all (\<lambda>i. i < length ycol) test"
  shows "fst r = map (\<lambda>i. ycol ! i) test
    \<and> (\<exists>random_forest.
          fit L rs (rows_at X train) (map (\<lambda>i. ycol ! i) train) = Inr random_forest
        \<and> predict L random_forest (rows_at X test) = Inr (snd r))"
proof -
  note rows = loc_rows_default [OF ix(2) wf]
  from run show ?thesis
    by (auto simp: fit_predict_partition_def loc_rows_col_def ycol ix(1)
        loc_labels_default [OF bound(1)] loc_labels_default [OF bound(2)]
        rows [OF bound(1)] rows [OF bound(2)] take_rows_def bound bind_err_def
        split: sum.splits)
qed

text \<open>
  A table whose index is not \<open>0 .. N - 1\<close> in row order: the rows carry the labels
  2, 0, 1. \<open>LeaveOneOut\<close> yields the positions 0, 1, 2, the harness looks them up as
  labels, and the true values come back in label order, not in the row order of the
  target column.
\<close>

theorem permuted_index_counterexample:
  "loc_col \<lparr>index = [2, 0, 1],
            cols = [(''x'', [Num 1, Num 2, Num 3]), (''y'', [Num 10, Num 20, Num 30])]\<rparr> ''y''
     = Inr [Num 10, Num 20, Num 30]
   \<and> fst (cross_validation row_count_forest [''x''] ''y'' 1234 ''loocv''
        \<lparr>index = [2, 0, 1],
         cols = [(''x'', [Num 1, Num 2, Num 3]), (''y'', [Num 10, Num 20, Num 30])]\<rparr>)
     = Inr ([Num 20, Num 30, Num 10], [2, 2, 2])"
  by code_simp

text \<open>
  Claim C3, as the code has it. When \<open>cross_validation\<close> returns \<open>(y_true, y_pred)\<close>:
  for the in-sample strategy \<open>y_true\<close> is the target column and \<open>y_pred\<close> the
  predictions of the forest fitted on all rows; for every other strategy both are the
  concatenation, over the partitions in the order the strategy emits them, of each
  partition's true values and predictions, with no sorting afterwards. The test
  positions of \<open>LeaveOneOut\<close> and of \<open>KFold\<close>, in emission order, are \<open>0 .. n - 1\<close>.
  For a table with the default index, where the label of a row is its position, each
  partition contributes its test rows in the order of its test indices, the forest is
  fitted on the partition's train rows and predicts its test rows, and \<open>y_true\<close> is
  the target column in the original row order, for \<open>LeaveOneOut\<close> and for \<open>KFold\<close>
  alike. In general the rows are those that \<^verbatim>\<open>.loc\<close> finds for the positions taken
  as labels.
\<close>

theorem cross_validation_order:
  assumes "fst (cross_validation L x_cols y_col random_state validator data) = Inr (y_true, y_pred)"
  shows "\<exists>model_input ycol.
      bind_err (loc_cols data x_cols) (get_dummies L) = Inr model_input
    \<and> loc_col data y_col = Inr ycol
    \<and> (validator = ''insample'' \<longrightarrow>
         y_true = ycol
       \<and> (\<exists>random_forest. fit L random_state model_input ycol = Inr random_forest
            \<and> predict L random_forest model_input = Inr y_pred))
    \<and> (validator \<noteq> ''insample'' \<longrightarrow>
         (\<exists>v partitions results rows.
            dict_get [(''loocv'', LeaveOneOut), (''5foldcv'', KFold 5),
                      (''15foldcv'', KFold 15), (''20foldcv'', KFold 20)] validator = Inr v
          \<and> validator_split v (nrows model_input) = Inr partitions
          \<and> concat (map snd partitions) = [0..<nrows model_input]
          \<and> list_all2 (\<lambda>p r. fit_predict_partition L random_state model_input data y_col p = Inr r)
               partitions results
          \<and> y_true = concat (map fst results)
          \<and> y_pred = concat (map snd results)
          \<and> loc_labels (index data) [0..<nrows model_input] = Inr rows
          \<and> y_true = map (\<lambda>p. ycol ! p) rows
          \<and> (index data = default_index (length ycol)
               \<and> index model_input = default_index (length ycol)
               \<and> well_formed model_input \<longrightarrow>
                 y_true = ycol
               \<and> list_all2 (\<lambda>(train, test) (yt, yp).
                      yt = map (\<lambda>i. ycol ! i) test
                    \<and> (\<exists>random_forest.
                          fit L random_state (rows_at model_input train) (map (\<lambda>i. ycol ! i) train)
                            = Inr random_forest
                        \<and> predict L random_forest (rows_at model_input test) = Inr yp))
                    partitions results)))"
proof -
  from assms obtain selected model_input where
    sel: "loc_cols data x_cols = Inr selected" and
    enc: "get_dummies L selected = Inr model_input"
    by (auto simp: cross_validation_run bind_err_def split: sum.splits)
  then have X: "bind_err (loc_cols data x_cols) (get_dummies L) = Inr model_input" by simp
  show ?thesis
  proof (cases "validator = ''insample''")
    case True
    with assms sel enc show ?thesis
      by (auto simp: cross_validation_run bind_err_def split: sum.splits)
  next
    case False
    with assms sel enc obtain v partitions results where
      v: "dict_get [(''loocv'', LeaveOneOut), (''5foldcv'', KFold 5),
                    (''15foldcv'', KFold 15), (''20foldcv'', KFold 20)] validator = Inr v" and
      parts: "validator_split v (nrows model_input) = Inr partitions" and
      res: "traverse (fit_predict_partition L random_state model_input data y_col) partitions
              = Inr results" and
      yt: "concatenate (map fst results) = Inr y_true" and
      yp: "concatenate (map snd results) = Inr y_pred"
      by (auto simp: cross_validation_run bind_err_def split: sum.splits)
    note all2 = traverse_Inr [OF res]
    from registered_split_tests [OF v parts] have
      tests: "concat (map snd partitions) = [0..<nrows model_input]" and ne: "partitions \<noteq> []"
      by simp_all
    from ne all2 obtain p r where "fit_predict_partition L random_state model_input data y_col p = Inr r"
      by (cases partitions; cases results) auto
    from fit_predict_partition_col [OF this] obtain ycol where
      ycol: "loc_col data y_col = Inr ycol" ..
    have cat: "y_true = concat (map fst results)" "y_pred = concat (map snd results)"
      using yt yp by (auto simp: concatenate_def split: if_splits)
    from concat_true_values [OF all2 ycol] tests cat(1) obtain rows where
      rows: "loc_labels (index data) [0..<nrows model_input] = Inr rows"
        "y_true = map (\<lambda>p. ycol ! p) rows"
      by auto
    have dflt: "y_true = ycol
        \<and> list_all2 (\<lambda>(train, test) (yt, yp).
              yt = map (\<lambda>i. ycol ! i) test
            \<and> (\<exists>random_forest.
                  fit L random_state (rows_at model_input train) (map (\<lambda>i. ycol ! i) train)
                    = Inr random_forest
                \<and> predict L random_forest (rows_at model_input test) = Inr yp))
            partitions results"
      if ix: "index data = default_index (length ycol)"
        "index model_input = default_index (length ycol)" and wf: "well_formed model_input"
    proof
      from ix(2) have n: "nrows model_input = length ycol"
        by (simp add: nrows_def default_index_def)
      have "loc_labels (index data) [0..<nrows model_input] = Inr [0..<length ycol]"
        unfolding ix(1) n by (rule loc_labels_default) (simp add: list_all_iff)
      with rows have "rows = [0..<length ycol]" by simp
      with rows(2) show "y_true = ycol" by (simp add: map_nth)
      show "list_all2 (\<lambda>(train, test) (yt, yp).
              yt = map (\<lambda>i. ycol ! i) test
            \<and> (\<exists>random_forest.
                  fit L random_state (rows_at model_input train) (map (\<lambda>i. ycol ! i) train)
                    = Inr random_forest
                \<and> predict L random_forest (rows_at model_input test) = Inr yp))
            partitions results"
        using all2
      proof (rule list.rel_mono_strong)
        fix p r
        assume p: "p \<in> set partitions"
          and run: "fit_predict_partition L random_state model_input data y_col p = Inr r"
        obtain train test where pt: "p = (train, test)" by (cases p)
        obtain yt yp where r: "r = (yt, yp)" by (cases r)
        from split_indices_bound [OF parts] p pt n
        have b: "list_all (\<lambda>i. i < length ycol) train" "list_all (\<lambda>i. i < length ycol) test"
          by auto
        from fit_predict_partition_default [OF run [unfolded pt] ycol ix wf b] pt r
        show "(case p of (train, test) \<Rightarrow> \<lambda>(yt, yp).
              yt = map (\<lambda>i. ycol ! i) test
            \<and> (\<exists>random_forest.
                  fit L random_state (rows_at model_input train) (map (\<lambda>i. ycol ! i) train)
                    = Inr random_forest
                \<and> predict L random_forest (rows_at model_input test) = Inr yp)) r"
          by simp
      qed
    qed
    from False X ycol v parts all2 cat rows tests dflt show ?thesis by blast
  qed
qed

theorem cross_validation_order_witness:
  "index twenty_rows = default_index 20 \<and> well_formed twenty_rows
   \<and> fst (cross_validation row_count_forest [''x''] ''y'' 1234 ''5foldcv'' twenty_rows)
       = Inr (twenty_targets, replicate 20 16)
   \<and> (\<exists>model_input ycol.
      bind_err (loc_cols twenty_rows [''x'']) (get_dummies row_count_forest) = Inr model_input
    \<and> loc_col twenty_rows ''y'' = Inr ycol
    \<and> (''5foldcv'' = ''insample'' \<longrightarrow>
         twenty_targets = ycol
       \<and> (\<exists>random_forest. fit row_count_forest 1234 model_input ycol = Inr random_forest
            \<and> predict row_count_forest random_forest model_input = Inr (replicate 20 16)))
    \<and> (''5foldcv'' \<noteq> ''insample'' \<longrightarrow>
         (\<exists>v partitions results rows.
            dict_get [(''loocv'', LeaveOneOut), (''5foldcv'', KFold 5),
                      (''15foldcv'', KFold 15), (''20foldcv'', KFold 20)] ''5foldcv'' = Inr v
          \<and> validator_split v (nrows model_input) = Inr partitions
          \<and> concat (map snd partitions) = [0..<nrows model_input]
          \<and> list_all2 (\<lambda>p r. fit_predict_partition row_count_forest 1234 model_input twenty_rows ''y'' p = Inr r)
               partitions results
          \<and> twenty_targets = concat (map fst results)
          \<and> (replicate 20 16) = concat (map snd results)
          \<and> loc_labels (index twenty_rows) [0..<nrows model_input] = Inr rows
          \<and> twenty_targets = map (\<lambda>p. ycol ! p) rows
          \<and> (index twenty_rows = default_index (length ycol)
               \<and> index model_input = default_index (length ycol)
               \<and> well_formed model_input \<longrightarrow>
                 twenty_targets = ycol
               \<and> list_all2 (\<lambda>(train, test) (yt, yp).
                      yt = map (\<lambda>i. ycol ! i) test
                    \<and> (\<exists>random_forest.
                          fit row_count_forest 1234 (rows_at model_input train) (map (\<lambda>i. ycol ! i) train)
                            = Inr random_forest
                        \<and> predict row_count_forest random_forest (rows_at model_input test) = Inr yp))
                    partitions results))))
   \<and> fst (cross_validation row_count_forest [''x''] ''y'' 1234 ''insample'' twenty_rows)
       = Inr (twenty_targets, replicate 20 20)
   \<and> (\<exists>model_input ycol.
      bind_err (loc_cols twenty_rows [''x'']) (get_dummies row_count_forest) = Inr model_input
    \<and> loc_col twenty_rows ''y'' = Inr ycol
    \<and> (''insample'' = ''insample'' \<longrightarrow>
         twenty_targets = ycol
       \<and> (\<exists>random_forest. fit row_count_forest 1234 model_input ycol = Inr random_forest
            \<and> predict row_count_forest random_forest model_input = Inr (replicate 20 20)))
    \<and> (''insample'' \<noteq> ''insample'' \<longrightarrow>
         (\<exists>v partitions results rows.
            dict_get [(''loocv'', LeaveOneOut), (''5foldcv'', KFold 5),
                      (''15foldcv'', KFold 15), (''20foldcv'', KFold 20)] ''insample'' = Inr v
          \<and> validator_split v (nrows model_input) = Inr partitions
          \<and> concat (map snd partitions) = [0..<nrows model_input]
          \<and> list_all2 (\<lambda>p r. fit_predict_partition row_count_forest 1234 model_input twenty_rows ''y'' p = Inr r)
               partitions results
          \<and> twenty_targets = concat (map fst results)
          \<and> (replicate 20 20) = concat (map snd results)
          \<and> loc_labels (index twenty_rows) [0..<nrows model_input] = Inr rows
          \<and> twenty_targets = map (\<lambda>p. ycol ! p) rows
          \<and> (index twenty_rows = default_index (length ycol)
               \<and> index model_input = default_index (length ycol)
               \<and> well_formed model_input \<longrightarrow>
                 twenty_targets = ycol
               \<and> list_all2 (\<lambda>(train, test) (yt, yp).
                      yt = map (\<lambda>i. ycol ! i) test
                    \<and> (\<exists>random_forest.
                          fit row_count_forest 1234 (rows_at model_input train) (map (\<lambda>i. ycol ! i) train)
                            = Inr random_forest
                        \<and> predict row_count_forest random_forest (rows_at model_input test) = Inr yp))
                    partitions results))))"
proof -
  have shape: "index twenty_rows = default_index 20" "well_formed twenty_rows"
    by code_simp+
  have run: "fst (cross_validation row_count_forest [''x''] ''y'' 1234 ''5foldcv'' twenty_rows)
     = Inr (twenty_targets, replicate 20 16)"
    by code_simp
  have run_in: "fst (cross_validation row_count_forest [''x''] ''y'' 1234 ''insample'' twenty_rows)
     = Inr (twenty_targets, replicate 20 20)"
    by code_simp
  note a = cross_validation_order [OF run]
  note b = cross_validation_order [OF run_in]
  from shape run a run_in b show ?thesis by (intro conjI)
qed

text \<open>
  Claim C4. \<open>calc_R2s\<close> runs the evaluation once for each of the five registered
  strategies, in the order in-sample, leave-one-out, 5-fold, 15-fold, 20-fold, each
  with the default seed, and scores each run with \<open>r2_score\<close>. The first run or score
  that raises ends the call with that exception; otherwise the result maps the five
  display names, and no other key, to the five scores.
\<close>

theorem calc_R2s_scores:
  "fst (calc_R2s np L x_cols y_col data) =
     bind_err (strategy_score np L x_cols y_col data ''insample'') (\<lambda>in_sample.
     bind_err (strategy_score np L x_cols y_col data ''loocv'') (\<lambda>loo.
     bind_err (strategy_score np L x_cols y_col data ''5foldcv'') (\<lambda>fold5.
     bind_err (strategy_score np L x_cols y_col data ''15foldcv'') (\<lambda>fold15.
     bind_err (strategy_score np L x_cols y_col data ''20foldcv'') (\<lambda>fold20.
     Inr [(''In Sample'', in_sample), (''Leave One Out CV'', loo), (''5 Fold CV'', fold5),
          (''15 Fold CV'', fold15), (''20 Fold CV'', fold20)])))))"
  unfolding calc_R2s_def validators_def strategy_score_def
  by (simp add: bind_cross_validation bind_pd_simps return_pd_def bind_err_def
      split: sum.splits prod.splits)

lemma twenty_rows_in_sample:
  "strategy_score exact row_count_forest [''x''] ''y'' twenty_rows ''insample''
     = Inr (Score (- (1805 / 4)))"
  by code_simp

lemma twenty_rows_loocv:
  "strategy_score exact row_count_forest [''x''] ''y'' twenty_rows ''loocv'' = Inr (Score (- 405))"
  by code_simp

lemma twenty_rows_5foldcv:
  "strategy_score exact row_count_forest [''x''] ''y'' twenty_rows ''5foldcv''
     = Inr (Score (- (1125 / 4)))"
  by code_simp

lemma twenty_rows_15foldcv:
  "strategy_score exact row_count_forest [''x''] ''y'' twenty_rows ''15foldcv''
     = Inr (Score (- (3065 / 8)))"
  by code_simp

lemma twenty_rows_20foldcv:
  "strategy_score exact row_count_forest [''x''] ''y'' twenty_rows ''20foldcv'' = Inr (Score (- 405))"
  by code_simp

theorem calc_R2s_scores_witness:
  "fst (calc_R2s exact row_count_forest [''x''] ''y'' twenty_rows) =
     Inr [(''In Sample'', Score (- (1805 / 4))), (''Leave One Out CV'', Score (- 405)),
          (''5 Fold CV'', Score (- (1125 / 4))), (''15 Fold CV'', Score (- (3065 / 8))),
          (''20 Fold CV'', Score (- 405))]"
  using calc_R2s_scores [of exact row_count_forest "[''x'']" "''y''" twenty_rows]
  by (simp add: twenty_rows_in_sample twenty_rows_loocv twenty_rows_5foldcv
      twenty_rows_15foldcv twenty_rows_20foldcv)

section \<open>The score: properties\<close>

lemma as_float_array_Num: "yt \<noteq> [] \<Longrightarrow> as_float_array (map Num yt) = Inr yt"
proof -
  have "traverse (\<lambda>v. case v of Num r \<Rightarrow> Inr r | Str _ \<Rightarrow> Inl ValueError) (map Num xs) = Inr xs"
    for xs :: "rat list"
    by (induction xs) simp_all
  then show "yt \<noteq> [] \<Longrightarrow> as_float_array (map Num yt) = Inr yt"
    by (simp add: as_float_array_def)
qed

text \<open>
  A constant \<open>y_true\<close> has zero variance, and the score is returned, not an exception.
  Every value in this computation is a small integer, on which float64 is exact.
\<close>

theorem r2_score_constant_counterexample:
  "r2_score exact [Num 1, Num 1] [1, 2] = Inr (Score 0)"
  by code_simp

text \<open>
  Claim C8, as the code has it. On a numeric \<open>y_true\<close> and a \<open>y_pred\<close> of the same
  length, at least two, \<open>r2_score\<close> never fails, whatever the variance of \<open>y_true\<close>.
  It returns the coefficient of determination, one minus the residual sum of squares
  over the total sum of squares, as float64 computes it, when both computed sums are
  not zero; it returns 0.0 when the computed total sum of squares is zero and the
  residual sum is not, and 1.0 when the computed residual sum is zero.
\<close>

theorem r2_score_value:
  assumes "length y_pred = length yt" and "2 \<le> length yt"
  shows "r2_score np (map Num yt) y_pred = Inr (
      if not_zero np (residual_sum_of_squares np yt y_pred)
      then (if not_zero np (total_sum_of_squares np yt)
            then coefficient_of_determination np yt y_pred
            else float64 np 0)
      else float64 np 1)"
proof -
  from assms(2) have ne: "yt \<noteq> []" by auto
  from assms show ?thesis
    by (simp add: r2_score_def as_float_array_Num [OF ne] Let_def zip_map_map comp_def
        case_prod_unfold residual_sum_of_squares_def total_sum_of_squares_def
        coefficient_of_determination_def)
qed

theorem r2_score_value_witness:
  "length [1, 2, 4 :: rat] = length [1, 2, 3 :: rat] \<and> 2 \<le> length [1, 2, 3 :: rat]
   \<and> r2_score exact (map Num [1, 2, 3]) [1, 2, 4] = Inr (Score (1 / 2))
   \<and> r2_score exact (map Num [5, 5, 5]) [5, 5, 5] = Inr (Score 1)
   \<and> r2_score exact (map Num [5, 5, 5]) [5, 6, 5] = Inr (Score 0)"
proof -
  have a: "(if not_zero exact (residual_sum_of_squares exact [1, 2, 3] [1, 2, 4])
      then (if not_zero exact (total_sum_of_squares exact [1, 2, 3])
            then coefficient_of_determination exact [1, 2, 3] [1, 2, 4]
            else float64 exact 0)
      else float64 exact 1) = Score (1 / 2)"
    by code_simp
  have b: "(if not_zero exact (residual_sum_of_squares exact [5, 5, 5] [5, 5, 5])
      then (if not_zero exact (total_sum_of_squares exact [5, 5, 5])
            then coefficient_of_determination exact [5, 5, 5] [5, 5, 5]
            else float64 exact 0)
      else float64 exact 1) = Score 1"
    by code_simp
  have c: "(if not_zero exact (residual_sum_of_squares exact [5, 5, 5] [5, 6, 5])
      then (if not_zero exact (total_sum_of_squares exact [5, 5, 5])
            then coefficient_of_determination exact [5, 5, 5] [5, 6, 5]
            else float64 exact 0)
      else float64 exact 1) = Score 0"
    by code_simp
  from r2_score_value [of "[1, 2, 4]" "[1, 2, 3]" exact]
    r2_score_value [of "[5, 5, 5]" "[5, 5, 5]" exact]
    r2_score_value [of "[5, 6, 5]" "[5, 5, 5]" exact] a b c
  show ?thesis by simp
qed

end
